theory Spec2Isabelle
  imports Main "HOL-Library.Word"
begin

unbundle bit_operations_syntax

section \<open>VFS options: the record, its defaults and \<open>Init\<close>\<close>

text \<open>
  A shallow embedding of \<^verbatim>\<open>vfs/vfscommon/options.go\<close>: the \<^verbatim>\<open>Options\<close> struct, the
  \<^verbatim>\<open>DefaultOpt\<close> value, \<^verbatim>\<open>initializeExclusionPatterns\<close> and \<^verbatim>\<open>(*Options).Init\<close>.
\<close>

subsection \<open>Types of the Go standard library\<close>

text \<open>
  \<^verbatim>\<open>os.FileMode\<close> is \<^verbatim>\<open>uint32\<close>, \<^verbatim>\<open>time.Duration\<close> is \<^verbatim>\<open>int64\<close> (nanoseconds).
  \<^verbatim>\<open>os.ModeDir\<close> is \<^verbatim>\<open>1 << (32 - 1 - 0)\<close>, the most significant bit.
\<close>

type_synonym FileMode = "32 word"
type_synonym Duration = "64 word"

definition ModeDir :: FileMode where
  "ModeDir = push_bit 31 1"

definition Millisecond :: Duration where
  "Millisecond = 1000000"

definition Second :: Duration where
  "Second = 1000 * Millisecond"

definition Minute :: Duration where
  "Minute = 60 * Second"

subsection \<open>Types of the repository that the file only uses\<close>

text \<open>
  \<^verbatim>\<open>fs.SizeSuffix\<close> is \<^verbatim>\<open>int64\<close>. The constant \<^verbatim>\<open>fs.Mebi\<close> is declared in package
  \<^verbatim>\<open>fs\<close> and is a parameter of \<open>DefaultOpt\<close> below.
\<close>

type_synonym SizeSuffix = "64 word"

text \<open>
  Modelled from the spec: the declaration of \<^verbatim>\<open>CacheMode\<close> and of \<^verbatim>\<open>CacheModeOff\<close> is not in
  this file; the spec gives the enumeration as off / minimal / writes / full.
\<close>

datatype CacheMode = CacheModeOff | CacheModeMinimal | CacheModeWrites | CacheModeFull

subsection \<open>The \<^verbatim>\<open>Options\<close> struct\<close>

text \<open>
  \<^verbatim>\<open>Umask\<close> is a Go \<^verbatim>\<open>int\<close>, 64 bits wide here; the conversion \<^verbatim>\<open>os.FileMode(opt.Umask)\<close>
  keeps its low 32 bits (as it would those of a 32-bit \<^verbatim>\<open>int\<close>).
  The element type \<open>'r\<close> of \<^verbatim>\<open>VfsExcludeRegex\<close> stands for \<^verbatim>\<open>*regexp.Regexp\<close>.
\<close>

record 'r Options =
  NoSeek :: bool
  NoChecksum :: bool
  ReadOnly :: bool
  NoModTime :: bool
  DirCacheTime :: Duration
  PollInterval :: Duration
  Umask :: "64 word"
  UID :: "32 word"
  GID :: "32 word"
  DirPerms :: FileMode
  FilePerms :: FileMode
  ChunkSize :: SizeSuffix
  ChunkSizeLimit :: SizeSuffix
  CacheMode :: CacheMode
  CacheMaxAge :: Duration
  CacheMaxSize :: SizeSuffix
  CacheMinFreeSpace :: SizeSuffix
  CachePollInterval :: Duration
  CaseInsensitive :: bool
  WriteWait :: Duration
  ReadWait :: Duration
  WriteBack :: Duration
  ReadAhead :: SizeSuffix
  UsedIsSize :: bool
  FastFingerprint :: bool
  DiskSpaceTotalSize :: SizeSuffix
  VfsUploadExclude :: "string list"
  VfsExcludeRegex :: "'r list"

subsection \<open>\<^verbatim>\<open>DefaultOpt\<close>\<close>

text \<open>
  The composite literal, field by field; the fields it does not name have Go's zero value.
  \<open>goos\<close> is \<^verbatim>\<open>runtime.GOOS\<close> and \<open>mebi\<close> is \<^verbatim>\<open>fs.Mebi\<close>. The octal literals
  \<^verbatim>\<open>0777\<close> and \<^verbatim>\<open>0666\<close> are 511 and 438.
\<close>

definition DefaultOpt :: "string \<Rightarrow> SizeSuffix \<Rightarrow> 'r Options" where
  "DefaultOpt goos mebi = \<lparr>
     NoSeek = False,
     NoChecksum = False,
     ReadOnly = False,
     NoModTime = False,
     DirCacheTime = 5 * 60 * Second,
     PollInterval = Minute,
     Umask = 0,
     UID = NOT 0,
     GID = NOT 0,
     DirPerms = 511,
     FilePerms = 438,
     ChunkSize = 128 * mebi,
     ChunkSizeLimit = - 1,
     CacheMode = CacheModeOff,
     CacheMaxAge = 3600 * Second,
     CacheMaxSize = - 1,
     CacheMinFreeSpace = - 1,
     CachePollInterval = 60 * Second,
     CaseInsensitive = (goos = ''windows'' \<or> goos = ''darwin''),
     WriteWait = 1000 * Millisecond,
     ReadWait = 20 * Millisecond,
     WriteBack = 5 * Second,
     ReadAhead = 0 * mebi,
     UsedIsSize = False,
     FastFingerprint = False,
     DiskSpaceTotalSize = - 1,
     VfsUploadExclude = [],
     VfsExcludeRegex = []
   \<rparr>"

subsection \<open>Diagnostics\<close>

text \<open>
  \<^verbatim>\<open>fs.Errorf(o, format, args...)\<close> writes to the log and returns nothing. The model keeps
  the calls made so far, oldest first: the subject, the format string and the argument.
\<close>

datatype 'e Diagnostic = Errorf string string 'e

type_synonym ('r, 'e) state = "'r Options \<times> 'e Diagnostic list"

subsection \<open>\<^verbatim>\<open>initializeExclusionPatterns\<close>\<close>

text \<open>
  \<^verbatim>\<open>filter.GlobToRegexp\<close> belongs to another package; it is the parameter \<open>GlobToRegexp\<close>,
  returning \<open>Inl err\<close> where the Go function returns a non-nil error and \<open>Inr re\<close>
  otherwise. The \<^verbatim>\<open>range\<close> loop reads the slice \<^verbatim>\<open>opt.VfsUploadExclude\<close> once and is the
  recursion \<open>rangeLoop\<close> over it; \<^verbatim>\<open>continue\<close> is the recursive call of the error branch.
\<close>

fun rangeLoop :: "(string \<Rightarrow> bool \<Rightarrow> 'e + 'r) \<Rightarrow> string list \<Rightarrow> ('r, 'e) state \<Rightarrow> ('r, 'e) state" where
  "rangeLoop GlobToRegexp [] (opt, log) = (opt, log)"
| "rangeLoop GlobToRegexp (pattern # rest) (opt, log) =
     (case GlobToRegexp pattern True of
        Inl err \<Rightarrow>
          rangeLoop GlobToRegexp rest
            (opt, log @ [Errorf pattern
               ''Could not generate regex from glob for VFS cache exclusion: %v'' err])
      | Inr regexPattern \<Rightarrow>
          rangeLoop GlobToRegexp rest
            (opt\<lparr>VfsExcludeRegex := VfsExcludeRegex opt @ [regexPattern]\<rparr>, log))"

definition initializeExclusionPatterns ::
    "(string \<Rightarrow> bool \<Rightarrow> 'e + 'r) \<Rightarrow> ('r, 'e) state \<Rightarrow> ('r, 'e) state" where
  "initializeExclusionPatterns GlobToRegexp s =
     rangeLoop GlobToRegexp (VfsUploadExclude (fst s)) s"

subsection \<open>\<^verbatim>\<open>Init\<close>\<close>

definition Init :: "(string \<Rightarrow> bool \<Rightarrow> 'e + 'r) \<Rightarrow> ('r, 'e) state \<Rightarrow> ('r, 'e) state" where
  "Init GlobToRegexp s =
     (let opt = fst s; log = snd s;
          opt = opt\<lparr>DirPerms := DirPerms opt AND NOT (ucast (Umask opt))\<rparr>;
          opt = opt\<lparr>FilePerms := FilePerms opt AND NOT (ucast (Umask opt))\<rparr>;
          opt = opt\<lparr>DirPerms := DirPerms opt OR ModeDir\<rparr>
      in initializeExclusionPatterns GlobToRegexp (opt, log))"

subsection \<open>What the loop produces, in closed form\<close>

text \<open>
  \<open>matchers\<close> lists the results of the globs that compile and \<open>diagnostics\<close> the messages
  about those that do not, both in the order of the globs. They are not part of the Go
  file: \<open>rangeLoop_closed\<close> below proves that the loop appends exactly these lists.
\<close>

definition matchers :: "(string \<Rightarrow> bool \<Rightarrow> 'e + 'r) \<Rightarrow> string list \<Rightarrow> 'r list" where
  "matchers g ps =
     List.map_filter (\<lambda>p. case g p True of Inl err \<Rightarrow> None | Inr re \<Rightarrow> Some re) ps"

definition diagnostics :: "(string \<Rightarrow> bool \<Rightarrow> 'e + 'r) \<Rightarrow> string list \<Rightarrow> 'e Diagnostic list" where
  "diagnostics g ps =
     List.map_filter (\<lambda>p. case g p True of
         Inl err \<Rightarrow>
           Some (Errorf p ''Could not generate regex from glob for VFS cache exclusion: %v'' err)
       | Inr re \<Rightarrow> None) ps"

subsection \<open>Concrete inputs\<close>

text \<open>
  A translator to run the model on: it rejects the glob \<^verbatim>\<open>[\<close> and stands for the regexp of
  any other glob by the glob itself. \<open>scenarioOpt\<close> is the default record on Linux with the
  three globs of the spec's scenario, \<open>cleanOpt\<close> the same with the two globs that compile.
  \<open>populatedOpt\<close> and \<open>populatedCleanOpt\<close> are these two records with one entry already in
  \<open>VfsExcludeRegex\<close>, and \<open>markerUmaskOpt\<close> is \<open>cleanOpt\<close> with the umask \<^verbatim>\<open>0x80000012\<close>:
  \<^verbatim>\<open>0022\<close> together with the bit of \<^verbatim>\<open>os.ModeDir\<close>.
\<close>

definition sampleGlobToRegexp :: "string \<Rightarrow> bool \<Rightarrow> string + string" where
  "sampleGlobToRegexp glob flag = (if glob = ''['' then Inl ''missing ]'' else Inr glob)"

definition scenarioOpt :: "string Options" where
  "scenarioOpt =
     (DefaultOpt ''linux'' 1048576)\<lparr>VfsUploadExclude := [''*.tmp'', ''['', ''cache/**'']\<rparr>"

definition cleanOpt :: "string Options" where
  "cleanOpt = (DefaultOpt ''linux'' 1048576)\<lparr>VfsUploadExclude := [''*.tmp'', ''cache/**'']\<rparr>"

definition populatedOpt :: "string Options" where
  "populatedOpt = scenarioOpt\<lparr>VfsExcludeRegex := [''old'']\<rparr>"



section \<open>Properties\<close>

subsection \<open>The loop and \<open>Init\<close> in closed form\<close>

lemma matchers_Nil [simp]: "matchers g [] = []"
  by (simp add: matchers_def)

lemma matchers_Cons [simp]:
  "matchers g (p # ps) =
     (case g p True of Inl err \<Rightarrow> matchers g ps | Inr re \<Rightarrow> re # matchers g ps)"
  by (simp add: matchers_def split: sum.splits)

lemma diagnostics_Nil [simp]: "diagnostics g [] = []"
  by (simp add: diagnostics_def)

lemma diagnostics_Cons [simp]:
  "diagnostics g (p # ps) =
     (case g p True of
        Inl err \<Rightarrow>
          Errorf p ''Could not generate regex from glob for VFS cache exclusion: %v'' err
            # diagnostics g ps
      | Inr re \<Rightarrow> diagnostics g ps)"
  by (simp add: diagnostics_def split: sum.splits)

lemma rangeLoop_closed:
  "rangeLoop g ps (opt, log) =
     (opt\<lparr>VfsExcludeRegex := VfsExcludeRegex opt @ matchers g ps\<rparr>, log @ diagnostics g ps)"
  by (induction ps arbitrary: opt log) (simp_all split: sum.splits)

lemma Init_closed:
  "Init g (opt, log) =
     (opt\<lparr>DirPerms := (DirPerms opt AND NOT (ucast (Umask opt))) OR ModeDir,
          FilePerms := FilePerms opt AND NOT (ucast (Umask opt)),
          VfsExcludeRegex := VfsExcludeRegex opt @ matchers g (VfsUploadExclude opt)\<rparr>,
      log @ diagnostics g (VfsUploadExclude opt))"
  by (simp add: Init_def initializeExclusionPatterns_def rangeLoop_closed)

lemma matchers_append: "matchers g (ps @ qs) = matchers g ps @ matchers g qs"
  by (induction ps) (simp_all split: sum.splits)

lemma diagnostics_append: "diagnostics g (ps @ qs) = diagnostics g ps @ diagnostics g qs"
  by (induction ps) (simp_all split: sum.splits)

lemma matchers_all_compile:
  "\<forall>p\<in>set ps. \<exists>re. g p True = Inr re \<Longrightarrow> map Inr (matchers g ps) = map (\<lambda>p. g p True) ps"
  by (induction ps) auto

lemma length_matchers_all_compile:
  "\<forall>p\<in>set ps. \<exists>re. g p True = Inr re \<Longrightarrow> length (matchers g ps) = length ps"
  by (induction ps) auto

lemma diagnostics_all_compile:
  "\<forall>p\<in>set ps. \<exists>re. g p True = Inr re \<Longrightarrow> diagnostics g ps = []"
  by (induction ps) auto


text \<open>
  The translator is consulted once per glob and only with the flag \<^verbatim>\<open>true\<close>: two translators
  that agree there give the same run.
\<close>

lemma rangeLoop_cong:
  "\<forall>p\<in>set ps. g p True = g' p True \<Longrightarrow>
     rangeLoop g ps (opt, log) = rangeLoop g' ps (opt, log)"
  by (induction ps arbitrary: opt log) (simp_all split: sum.splits)

lemma Init_cong:
  "\<forall>p\<in>set (VfsUploadExclude opt). g p True = g' p True \<Longrightarrow>
     Init g (opt, log) = Init g' (opt, log)"
  by (simp add: Init_def initializeExclusionPatterns_def Let_def rangeLoop_cong)

subsection \<open>Bit arithmetic on \<^verbatim>\<open>os.FileMode\<close>\<close>

lemma mask_clears: "(f AND NOT u) AND u = (0 :: FileMode)"
  by (simp add: bit_eq_iff bit_and_iff bit_not_iff)



lemma all_ones_32: "unat (- 1 :: 32 word) = 4294967295"
  by (simp add: unsigned_minus_1_eq_mask mask_eq_exp_minus_1)

subsection \<open>Permission bits\<close>

text \<open>
  C1. After \<open>Init\<close> the directory permission bits carry the directory marker, for every
  record and every umask: \<open>DirPerms AND ModeDir = ModeDir\<close>.
\<close>

theorem Init_sets_ModeDir:
  "DirPerms (fst (Init g (opt, log))) AND ModeDir = ModeDir"
  by (simp add: Init_closed)

text \<open>
  C2. \<open>Init\<close> sets the file permission bits to the old ones AND the complement of the umask
  (as converted to \<^verbatim>\<open>os.FileMode\<close>), so no bit of the umask is set in them afterwards. With
  umask \<^verbatim>\<open>0022\<close> (18), directory bits \<^verbatim>\<open>0777\<close> (511) and file bits \<^verbatim>\<open>0666\<close> (438) the
  result is \<^verbatim>\<open>0755\<close> (493) with the directory marker, and \<^verbatim>\<open>0644\<close> (420).
\<close>

theorem Init_masks_FilePerms:
  "FilePerms (fst (Init g (opt, log))) = FilePerms opt AND NOT (ucast (Umask opt))
   \<and> FilePerms (fst (Init g (opt, log))) AND ucast (Umask opt) = 0
   \<and> DirPerms (fst (Init g (opt\<lparr>Umask := 18, DirPerms := 511, FilePerms := 438\<rparr>, log)))
       = 493 OR ModeDir
   \<and> FilePerms (fst (Init g (opt\<lparr>Umask := 18, DirPerms := 511, FilePerms := 438\<rparr>, log)))
       = 420"
  by (simp add: Init_closed mask_clears)

subsection \<open>Exclusion patterns\<close>

text \<open>
  C3. For a record whose \<open>VfsExcludeRegex\<close> starts empty and whose globs all compile, the
  list after \<open>Init\<close> is as long as the glob list, and its entries are the translator's
  results for the globs, in the order of the globs.
\<close>

theorem Init_compiles_all_in_order:
  assumes "VfsExcludeRegex opt = []"
      and "\<forall>p\<in>set (VfsUploadExclude opt). \<exists>re. g p True = Inr re"
  shows "length (VfsExcludeRegex (fst (Init g (opt, log)))) = length (VfsUploadExclude opt)
       \<and> map Inr (VfsExcludeRegex (fst (Init g (opt, log))))
           = map (\<lambda>p. g p True) (VfsUploadExclude opt)"
  using assms by (simp add: Init_closed matchers_all_compile length_matchers_all_compile)

theorem Init_compiles_all_in_order_witness:
  "VfsExcludeRegex cleanOpt = []
   \<and> VfsUploadExclude cleanOpt = [''*.tmp'', ''cache/**'']
   \<and> sampleGlobToRegexp ''*.tmp'' True = Inr ''*.tmp''
   \<and> sampleGlobToRegexp ''cache/**'' True = Inr ''cache/**''
   \<and> length (VfsExcludeRegex (fst (Init sampleGlobToRegexp (cleanOpt, [])))) = 2
   \<and> map Inr (VfsExcludeRegex (fst (Init sampleGlobToRegexp (cleanOpt, []))))
       = [Inr ''*.tmp'', Inr ''cache/**'' :: string + string]"
  using Init_compiles_all_in_order [of cleanOpt sampleGlobToRegexp "[]"]
  by (simp add: cleanOpt_def DefaultOpt_def sampleGlobToRegexp_def)

text \<open>
  C4, as amended. When the glob list is \<open>xs @ [bad] @ ys\<close>, every glob of \<open>xs\<close> and \<open>ys\<close>
  compiles and \<open>bad\<close> does not: \<open>Init\<close> appends the results for \<open>xs @ ys\<close>, in order, and
  nothing for \<open>bad\<close>, so \<open>VfsExcludeRegex\<close> grows by one less than the length of the glob
  list, and a list that starts empty ends one shorter than the glob list; the log grows
  by exactly one message, whose subject is \<open>bad\<close> and whose argument is the translator's
  error; and the record returned is the one \<open>Init\<close> returns without \<open>bad\<close> in the glob
  list, up to the glob list itself: nothing tells the caller of the failure.
\<close>

theorem Init_skips_one_malformed:
  assumes "VfsUploadExclude opt = xs @ [bad] @ ys"
      and "\<forall>p\<in>set (xs @ ys). \<exists>re. g p True = Inr re"
      and "g bad True = Inl err"
  shows "VfsExcludeRegex (fst (Init g (opt, log))) = VfsExcludeRegex opt @ matchers g (xs @ ys)
       \<and> map Inr (matchers g (xs @ ys)) = map (\<lambda>p. g p True) (xs @ ys)
       \<and> length (VfsExcludeRegex (fst (Init g (opt, log)))) + 1
           = length (VfsExcludeRegex opt) + length (VfsUploadExclude opt)
       \<and> (VfsExcludeRegex opt = [] \<longrightarrow>
            length (VfsExcludeRegex (fst (Init g (opt, log))))
              = length (VfsUploadExclude opt) - 1)
       \<and> snd (Init g (opt, log)) =
            log @ [Errorf bad
                     ''Could not generate regex from glob for VFS cache exclusion: %v'' err]
       \<and> fst (Init g (opt, log)) =
            (fst (Init g (opt\<lparr>VfsUploadExclude := xs @ ys\<rparr>, log)))
              \<lparr>VfsUploadExclude := xs @ [bad] @ ys\<rparr>"
proof -
  have xs: "\<forall>p\<in>set xs. \<exists>re. g p True = Inr re" and ys: "\<forall>p\<in>set ys. \<exists>re. g p True = Inr re"
    using assms(2) by auto
  have m: "matchers g (xs @ [bad] @ ys) = matchers g (xs @ ys)"
    using assms(3) by (simp add: matchers_append)
  have d: "diagnostics g (xs @ [bad] @ ys) =
      [Errorf bad ''Could not generate regex from glob for VFS cache exclusion: %v'' err]"
    using assms(3) xs ys by (simp add: diagnostics_append diagnostics_all_compile)
  have l: "length (matchers g (xs @ ys)) = length xs + length ys"
    using assms(2) length_matchers_all_compile [of "xs @ ys" g] by simp
  have o: "map Inr (matchers g (xs @ ys)) = map (\<lambda>p. g p True) (xs @ ys)"
    using assms(2) by (rule matchers_all_compile)
  show ?thesis
    using assms(1) m d l o by (simp add: Init_closed)
qed

theorem Init_skips_one_malformed_witness:
  "VfsUploadExclude scenarioOpt = [''*.tmp''] @ [''[''] @ [''cache/**'']
   \<and> sampleGlobToRegexp ''*.tmp'' True = Inr ''*.tmp''
   \<and> sampleGlobToRegexp ''cache/**'' True = Inr ''cache/**''
   \<and> sampleGlobToRegexp ''['' True = Inl ''missing ]''
   \<and> VfsExcludeRegex scenarioOpt = []
   \<and> VfsExcludeRegex (fst (Init sampleGlobToRegexp (scenarioOpt, []))) = [''*.tmp'', ''cache/**'']
   \<and> length (VfsExcludeRegex (fst (Init sampleGlobToRegexp (scenarioOpt, [])))) = 2
   \<and> snd (Init sampleGlobToRegexp (scenarioOpt, [])) =
        [Errorf ''['' ''Could not generate regex from glob for VFS cache exclusion: %v''
           ''missing ]'']"
  using Init_skips_one_malformed
    [of scenarioOpt "[''*.tmp'']" "''[''" "[''cache/**'']" sampleGlobToRegexp "''missing ]''" "[]"]
  by (simp add: Init_closed scenarioOpt_def DefaultOpt_def sampleGlobToRegexp_def)

text \<open>
  C4 as stated, without the condition on the starting list, fails: on a record that already
  holds one pattern, the three globs of the scenario (one of them malformed) leave three
  entries in \<open>VfsExcludeRegex\<close>, not two.
\<close>

theorem Init_skips_one_malformed_counterexample:
  "VfsUploadExclude populatedOpt = [''*.tmp'', ''['', ''cache/**'']
   \<and> sampleGlobToRegexp ''*.tmp'' True = Inr ''*.tmp''
   \<and> sampleGlobToRegexp ''['' True = Inl ''missing ]''
   \<and> sampleGlobToRegexp ''cache/**'' True = Inr ''cache/**''
   \<and> VfsExcludeRegex populatedOpt = [''old'']
   \<and> VfsExcludeRegex (fst (Init sampleGlobToRegexp (populatedOpt, [])))
       = [''old'', ''*.tmp'', ''cache/**'']
   \<and> length (VfsUploadExclude populatedOpt) - 1 = 2
   \<and> length (VfsExcludeRegex (fst (Init sampleGlobToRegexp (populatedOpt, []))))
       \<noteq> length (VfsUploadExclude populatedOpt) - 1"
  by (simp add: Init_closed populatedOpt_def scenarioOpt_def DefaultOpt_def
      sampleGlobToRegexp_def)

text \<open>
  C10. \<open>Init\<close> neither clears nor checks a \<open>VfsExcludeRegex\<close> that is already populated: the
  old entries stay where they are and the newly compiled patterns follow them.
\<close>

theorem Init_keeps_existing_patterns:
  "VfsExcludeRegex (fst (Init g (opt, log)))
     = VfsExcludeRegex opt @ matchers g (VfsUploadExclude opt)
   \<and> take (length (VfsExcludeRegex opt)) (VfsExcludeRegex (fst (Init g (opt, log))))
       = VfsExcludeRegex opt
   \<and> VfsExcludeRegex (fst (Init sampleGlobToRegexp
        (scenarioOpt\<lparr>VfsExcludeRegex := [''old'']\<rparr>, []))) = [''old'', ''*.tmp'', ''cache/**'']"
  by (simp add: Init_closed scenarioOpt_def DefaultOpt_def sampleGlobToRegexp_def)

subsection \<open>Frame\<close>

text \<open>
  C7. \<open>Init\<close> writes \<open>DirPerms\<close>, \<open>FilePerms\<close> and \<open>VfsExcludeRegex\<close> and no other field:
  the record it returns is the old one with these three fields replaced. In particular
  \<open>ChunkSizeLimit\<close> keeps its value, and the \<open>- 1\<close> of the default record is still there.
\<close>

theorem Init_frame:
  "fst (Init g (opt, log)) =
     opt\<lparr>DirPerms := DirPerms (fst (Init g (opt, log))),
          FilePerms := FilePerms (fst (Init g (opt, log))),
          VfsExcludeRegex := VfsExcludeRegex (fst (Init g (opt, log)))\<rparr>
   \<and> ChunkSizeLimit (fst (Init g (opt, log))) = ChunkSizeLimit opt
   \<and> sint (ChunkSizeLimit (fst (Init g (DefaultOpt goos mebi, log)))) = - 1"
  by (simp add: Init_closed DefaultOpt_def)

subsection \<open>Applying \<open>Init\<close> twice\<close>




subsection \<open>The default record\<close>

text \<open>
  C6. The \<open>CaseInsensitive\<close> field of the default record is computed from \<^verbatim>\<open>runtime.GOOS\<close>: it
  is true exactly when that is \<^verbatim>\<open>windows\<close> or \<^verbatim>\<open>darwin\<close> (macOS), and so false on Linux.
\<close>

theorem DefaultOpt_CaseInsensitive:
  "CaseInsensitive (DefaultOpt goos mebi) = (goos = ''windows'' \<or> goos = ''darwin'')
   \<and> CaseInsensitive (DefaultOpt ''windows'' mebi)
   \<and> CaseInsensitive (DefaultOpt ''darwin'' mebi)
   \<and> \<not> CaseInsensitive (DefaultOpt ''linux'' mebi)"
  by (simp add: DefaultOpt_def)

text \<open>
  C9. In the default record \<open>ChunkSizeLimit\<close>, \<open>CacheMaxSize\<close>, \<open>CacheMinFreeSpace\<close> and
  \<open>DiskSpaceTotalSize\<close> are \<open>- 1\<close>, \<open>UID\<close> and \<open>GID\<close> are the 32-bit value with every bit
  set, \<open>DirPerms\<close> is \<^verbatim>\<open>0777\<close>, \<open>FilePerms\<close> is \<^verbatim>\<open>0666\<close> and \<open>Umask\<close> is 0.
\<close>

theorem DefaultOpt_sentinels:
  "sint (ChunkSizeLimit (DefaultOpt goos mebi)) = - 1
   \<and> sint (CacheMaxSize (DefaultOpt goos mebi)) = - 1
   \<and> sint (CacheMinFreeSpace (DefaultOpt goos mebi)) = - 1
   \<and> sint (DiskSpaceTotalSize (DefaultOpt goos mebi)) = - 1
   \<and> unat (UID (DefaultOpt goos mebi)) = 2 ^ 32 - 1
   \<and> unat (GID (DefaultOpt goos mebi)) = 2 ^ 32 - 1
   \<and> UID (DefaultOpt goos mebi) AND x = x
   \<and> GID (DefaultOpt goos mebi) AND y = y
   \<and> DirPerms (DefaultOpt goos mebi) = 7 * 64 + 7 * 8 + 7
   \<and> FilePerms (DefaultOpt goos mebi) = 6 * 64 + 6 * 8 + 6
   \<and> Umask (DefaultOpt goos mebi) = 0"
  by (simp add: DefaultOpt_def all_ones_32)

end
